theory Spec2Isabelle
  imports Complex_Main
begin

section \<open>Scalars, errors and the numpy reductions\<close>

text \<open>
  Log-likelihoods are float64 values in the program; they are modelled as reals, so
  rounding, \<open>nan\<close> and \<open>inf\<close> are outside the model. The theorems below say which
  expression the program computes and which branch it takes; a property that rounding
  decides, such as a strict order between two differences, is not stated. Exceptions are
  values of the type \<open>error\<close>; a function that can raise returns \<open>error + 'a\<close> with
  \<open>Inl\<close> the exception.
\<close>

datatype error = QueryError | TypeError | ZeroDivisionError | EvaluationError

text \<open>
  \<open>np.mean\<close>: the sum divided by the number of elements. On the empty list numpy returns
  \<open>nan\<close> with a warning (it does not raise); the model has HOL's \<open>0 / 0 = 0\<close> there.
\<close>

definition np_mean :: "real list \<Rightarrow> real" where
  "np_mean xs = sum_list xs / real (length xs)"

text \<open>
  \<open>np.std\<close> with its default \<open>ddof = 0\<close>: the square root of the mean of the squared
  deviations from the mean.
\<close>

definition np_std :: "real list \<Rightarrow> real" where
  "np_std xs = sqrt (np_mean (map (\<lambda>x. (x - np_mean xs)\<^sup>2) xs))"

text \<open>
  The standard deviation in the specification's words: the sample standard deviation, the
  unbiased estimator with denominator \<open>n - 1\<close>. It is not part of the program.
\<close>

definition sample_std :: "real list \<Rightarrow> real" where
  "sample_std xs = sqrt (sum_list (map (\<lambda>x. (x - np_mean xs)\<^sup>2) xs) / (real (length xs) - 1))"

text \<open>Python's \<open>/\<close> on numbers: a zero divisor raises \<open>ZeroDivisionError\<close>.\<close>

definition py_div :: "real \<Rightarrow> real \<Rightarrow> error + real" where
  "py_div a b = (if b = 0 then Inl ZeroDivisionError else Inr (a / b))"

section \<open>Records of the pipeline\<close>

text \<open>
  The dictionaries that \<open>perturb_texts\<close> hands to \<open>query_lls\<close>: a passage pair and the two
  perturbation sets.
\<close>

record partial_record =
  original :: string
  sampled :: string
  perturbed_original :: "string list"
  perturbed_sampled :: "string list"

text \<open>The same dictionary once \<open>query_lls\<close> has added its eight keys.\<close>

record result_record = partial_record +
  original_ll :: real
  sampled_ll :: real
  all_perturbed_sampled_ll :: "real list"
  all_perturbed_original_ll :: "real list"
  perturbed_sampled_ll :: real
  perturbed_original_ll :: real
  perturbed_sampled_ll_std :: real
  perturbed_original_ll_std :: real

text \<open>
  The module \<open>query_probabilities\<close> is not among the sources: its three functions are
  parameters. The model, tokenizer and model name that \<open>query_lls\<close> only passes through
  are part of the parameter; the keyword options \<open>openai_opts\<close> are its argument.
\<close>

record 'o querier =
  get_ll :: "string \<Rightarrow> 'o \<Rightarrow> error + real"
  get_lls :: "string list \<Rightarrow> 'o \<Rightarrow> error + real list"
  count_tokens :: "error + nat"

section \<open>\<open>query_lls\<close>\<close>

text \<open>
  The body of the loop of \<open>query_lls\<close> for one dictionary. \<open>**openai_opts\<close> raises
  \<open>TypeError\<close> when \<open>openai_opts\<close> is \<open>None\<close>, its default. The four queries run in the
  source's order and the first exception leaves the function.
\<close>

definition score_record :: "'o querier \<Rightarrow> 'o option \<Rightarrow> partial_record \<Rightarrow> error + result_record" where
  "score_record qp openai_opts res =
     (case openai_opts of
        None \<Rightarrow> Inl TypeError
      | Some opts \<Rightarrow>
     (case get_lls qp (perturbed_sampled res) opts of
        Inl e \<Rightarrow> Inl e
      | Inr p_sampled_ll \<Rightarrow>
     (case get_lls qp (perturbed_original res) opts of
        Inl e \<Rightarrow> Inl e
      | Inr p_original_ll \<Rightarrow>
     (case get_ll qp (original res) opts of
        Inl e \<Rightarrow> Inl e
      | Inr o_ll \<Rightarrow>
     (case get_ll qp (sampled res) opts of
        Inl e \<Rightarrow> Inl e
      | Inr s_ll \<Rightarrow>
        Inr \<lparr> original = original res,
              sampled = sampled res,
              perturbed_original = perturbed_original res,
              perturbed_sampled = perturbed_sampled res,
              original_ll = o_ll,
              sampled_ll = s_ll,
              all_perturbed_sampled_ll = p_sampled_ll,
              all_perturbed_original_ll = p_original_ll,
              perturbed_sampled_ll = np_mean p_sampled_ll,
              perturbed_original_ll = np_mean p_original_ll,
              perturbed_sampled_ll_std =
                (if length p_sampled_ll > 1 then np_std p_sampled_ll else 1),
              perturbed_original_ll_std =
                (if length p_original_ll > 1 then np_std p_original_ll else 1) \<rparr>)))))"

text \<open>
  The loop over \<open>results\<close>. There is no \<open>try\<close> in \<open>query_lls\<close>: an exception of a query
  ends the loop and the function.
\<close>

fun query_loop :: "'o querier \<Rightarrow> 'o option \<Rightarrow> partial_record list \<Rightarrow> error + result_record list" where
  "query_loop qp openai_opts [] = Inr []"
| "query_loop qp openai_opts (res # rest) =
     (case score_record qp openai_opts res of
        Inl e \<Rightarrow> Inl e
      | Inr r \<Rightarrow>
          (case query_loop qp openai_opts rest of
             Inl e \<Rightarrow> Inl e
           | Inr rs \<Rightarrow> Inr (r # rs)))"

text \<open>
  \<open>query_lls\<close>: the loop, then the token count (only printed), then the list.
\<close>

definition query_lls :: "'o querier \<Rightarrow> 'o option \<Rightarrow> partial_record list \<Rightarrow> error + result_record list" where
  "query_lls qp openai_opts results =
     (case query_loop qp openai_opts results of
        Inl e \<Rightarrow> Inl e
      | Inr rs \<Rightarrow>
          (case count_tokens qp of
             Inl e \<Rightarrow> Inl e
           | Inr tokens_used \<Rightarrow> Inr rs))"

section \<open>\<open>run_perturbation_experiment\<close>\<close>

text \<open>The dictionary \<open>predictions\<close> with its keys \<open>'real'\<close> and \<open>'samples'\<close>.\<close>

record predictions =
  real_scores :: "real list"
  samples :: "real list"

text \<open>The hyperparameter dictionary that the main program builds.\<close>

record hyperparameters =
  n_perturbations :: int
  span_length :: int
  perturb_pct :: real
  n_perturbation_rounds :: int

text \<open>
  The module \<open>evaluation\<close> is not among the sources: its two functions are parameters,
  each returning its triple or raising.
\<close>

record evaluation =
  get_roc_metrics :: "real list \<Rightarrow> real list \<Rightarrow> error + (real list \<times> real list \<times> real)"
  get_precision_recall_metrics :: "real list \<Rightarrow> real list \<Rightarrow> error + (real list \<times> real list \<times> real)"

record roc_metrics =
  roc_auc :: real
  fpr :: "real list"
  tpr :: "real list"

record pr_metrics =
  pr_auc :: real
  precision :: "real list"
  recall :: "real list"

record experiment_outcome =
  name :: string
  predictions :: predictions
  info :: hyperparameters
  raw_results :: "result_record list"
  metrics :: roc_metrics
  pr_metrics :: pr_metrics
  loss :: real

text \<open>
  The loop over \<open>results\<close>. The dictionaries are mutated in place by the \<open>'z'\<close> branch, so
  the loop returns the list as it stands afterwards together with the populations or the
  exception. A criterion that is neither \<open>'d'\<close> nor \<open>'z'\<close> matches no branch.
\<close>

fun predict_loop :: "string \<Rightarrow> result_record list \<Rightarrow> predictions \<Rightarrow> result_record list \<times> (error + predictions)" where
  "predict_loop criterion [] preds = ([], Inr preds)"
| "predict_loop criterion (res # rest) preds =
     (if criterion = ''d'' then
        (let preds1 = preds\<lparr>real_scores := real_scores preds @ [original_ll res - perturbed_original_ll res]\<rparr>;
             preds2 = preds1\<lparr>samples := samples preds1 @ [sampled_ll res - perturbed_sampled_ll res]\<rparr>;
             (rest', out) = predict_loop criterion rest preds2
         in (res # rest', out))
      else if criterion = ''z'' then
        (let res1 = (if perturbed_original_ll_std res = 0
                     then res\<lparr>perturbed_original_ll_std := 1\<rparr> else res);
             res2 = (if perturbed_sampled_ll_std res1 = 0
                     then res1\<lparr>perturbed_sampled_ll_std := 1\<rparr> else res1)
         in (case py_div (original_ll res2 - perturbed_original_ll res2) (perturbed_original_ll_std res2) of
               Inl e \<Rightarrow> (res2 # rest, Inl e)
             | Inr x \<Rightarrow>
                 (let preds1 = preds\<lparr>real_scores := real_scores preds @ [x]\<rparr>
                  in (case py_div (sampled_ll res2 - perturbed_sampled_ll res2) (perturbed_sampled_ll_std res2) of
                        Inl e \<Rightarrow> (res2 # rest, Inl e)
                      | Inr y \<Rightarrow>
                          (let preds2 = preds1\<lparr>samples := samples preds1 @ [y]\<rparr>;
                               (rest', out) = predict_loop criterion rest preds2
                           in (res2 # rest', out))))))
      else
        (let (rest', out) = predict_loop criterion rest preds
         in (res # rest', out)))"

text \<open>Python's \<open>str\<close> of an integer, for the f-string of the experiment's name.\<close>

fun str_nat :: "nat \<Rightarrow> string" where
  "str_nat n = (if n < 10 then [''0123456789'' ! n]
                else str_nat (n div 10) @ [''0123456789'' ! (n mod 10)])"

definition str_int :: "int \<Rightarrow> string" where
  "str_int i = (if i < 0 then CHR ''-'' # str_nat (nat (- i)) else str_nat (nat i))"

text \<open>
  \<open>run_perturbation_experiment\<close>. The rendering of the float \<open>perturb_pct\<close> in the
  f-string is the parameter \<open>str_float\<close>. The function returns the list \<open>results\<close> as the
  loop left it, which is the caller's list, and the outcome or the exception.
\<close>

definition run_perturbation_experiment ::
  "evaluation \<Rightarrow> (real \<Rightarrow> string) \<Rightarrow> result_record list \<Rightarrow> string \<Rightarrow> hyperparameters \<Rightarrow> string
     \<Rightarrow> result_record list \<times> (error + experiment_outcome)" where
  "run_perturbation_experiment ev str_float results criterion hyperparams dataset =
     (case predict_loop criterion results \<lparr>real_scores = [], samples = []\<rparr> of
        (results', Inl e) \<Rightarrow> (results', Inl e)
      | (results', Inr preds) \<Rightarrow>
     (case get_roc_metrics ev (real_scores preds) (samples preds) of
        Inl e \<Rightarrow> (results', Inl e)
      | Inr (fpr_v, tpr_v, roc_auc_v) \<Rightarrow>
     (case get_precision_recall_metrics ev (real_scores preds) (samples preds) of
        Inl e \<Rightarrow> (results', Inl e)
      | Inr (p, r, pr_auc_v) \<Rightarrow>
        (results',
         Inr \<lparr> name = dataset @ ''_'' @ (if criterion = ''d'' then ''difference'' else ''z-score'')
                       @ ''_'' @ str_int (n_perturbations hyperparams)
                       @ ''_'' @ str_float (perturb_pct hyperparams) @ ''.'',
               predictions = preds,
               info = hyperparams,
               raw_results = results',
               metrics = \<lparr> roc_auc = roc_auc_v, fpr = fpr_v, tpr = tpr_v \<rparr>,
               pr_metrics = \<lparr> pr_auc = pr_auc_v, precision = p, recall = r \<rparr>,
               loss = 1 - pr_auc_v \<rparr>))))"

section \<open>The Perturber\<close>

text \<open>
  Modelled from the spec: the module \<open>perturb\<close> (\<open>perturb_texts\<close>) is not among the
  sources. The masking policy, the infill model and the substitution of the fills are
  parameters; the masking policy also receives the index of the variant and of the round,
  which stand for its independent random draws. It returns the masked text and the number
  of masks it requested.
\<close>

record perturber =
  mask_policy :: "nat \<Rightarrow> nat \<Rightarrow> string \<Rightarrow> nat \<Rightarrow> real \<Rightarrow> string \<times> nat"
  infill :: "string \<Rightarrow> string list"
  substitute :: "string \<Rightarrow> string list \<Rightarrow> string"

text \<open>
  Modelled from the spec: the validity check. A round succeeds only if the number of
  distinct fill tokens produced equals the number of masks requested.
\<close>

definition round_valid :: "perturber \<Rightarrow> string \<Rightarrow> nat \<Rightarrow> real \<Rightarrow> nat \<Rightarrow> nat \<Rightarrow> bool" where
  "round_valid pb passage span_len pct v r =
     (case mask_policy pb v r passage span_len pct of
        (masked, n_masks) \<Rightarrow> length (remdups (infill pb masked)) = n_masks)"

text \<open>
  Modelled from the spec: the retry policy for the variant \<open>v\<close>. Round \<open>r\<close> is tried while
  \<open>k\<close> rounds remain; when none remains the variant is the original unmasked passage.
\<close>

fun try_rounds :: "perturber \<Rightarrow> string \<Rightarrow> nat \<Rightarrow> real \<Rightarrow> nat \<Rightarrow> nat \<Rightarrow> nat \<Rightarrow> string" where
  "try_rounds pb passage span_len pct v r 0 = passage"
| "try_rounds pb passage span_len pct v r (Suc k) =
     (if round_valid pb passage span_len pct v r
      then (case mask_policy pb v r passage span_len pct of
              (masked, n_masks) \<Rightarrow> substitute pb masked (infill pb masked))
      else try_rounds pb passage span_len pct v (Suc r) k)"

text \<open>
  Modelled from the spec: \<open>perturb\<close>, which produces exactly \<open>n_variants\<close> entries, each
  from its own rounds.
\<close>

definition perturb :: "perturber \<Rightarrow> string \<Rightarrow> nat \<Rightarrow> real \<Rightarrow> nat \<Rightarrow> nat \<Rightarrow> string list" where
  "perturb pb passage span_len pct n_variants n_rounds =
     map (\<lambda>v. try_rounds pb passage span_len pct v 0 n_rounds) [0..<n_variants]"

section \<open>Concrete inputs\<close>

text \<open>
  A querier that scores a text by its length and fails on the text \<open>bad\<close>, two partial
  records, and what \<open>query_lls\<close> makes of the first.
\<close>

definition ex_qp :: "unit querier" where
  "ex_qp = \<lparr> get_ll = (\<lambda>t opts. if t = ''bad'' then Inl QueryError else Inr (real (length t))),
            get_lls = (\<lambda>ts opts. if ''bad'' \<in> set ts then Inl QueryError
                                 else Inr (map (\<lambda>t. real (length t)) ts)),
            count_tokens = Inr 0 \<rparr>"

definition ex_partial :: partial_record where
  "ex_partial = \<lparr> original = ''abcd'', sampled = ''abc'',
                  perturbed_original = [''a'', ''abcde''], perturbed_sampled = [''ab'', ''ab''] \<rparr>"

definition ex_bad :: partial_record where
  "ex_bad = \<lparr> original = ''bad'', sampled = ''abc'',
              perturbed_original = [''a'', ''abcde''], perturbed_sampled = [''ab'', ''ab''] \<rparr>"

definition ex_result :: result_record where
  "ex_result = \<lparr> original = ''abcd'', sampled = ''abc'',
                 perturbed_original = [''a'', ''abcde''], perturbed_sampled = [''ab'', ''ab''],
                 original_ll = 4, sampled_ll = 3,
                 all_perturbed_sampled_ll = [2, 2], all_perturbed_original_ll = [1, 5],
                 perturbed_sampled_ll = 2, perturbed_original_ll = 3,
                 perturbed_sampled_ll_std = 0, perturbed_original_ll_std = 2 \<rparr>"

text \<open>A partial record with a single perturbation of each passage, and its result.\<close>

definition ex_single :: partial_record where
  "ex_single = \<lparr> original = ''abcd'', sampled = ''abc'',
                 perturbed_original = [''a''], perturbed_sampled = [''ab''] \<rparr>"

definition ex_single_result :: result_record where
  "ex_single_result = \<lparr> original = ''abcd'', sampled = ''abc'',
                        perturbed_original = [''a''], perturbed_sampled = [''ab''],
                        original_ll = 4, sampled_ll = 3,
                        all_perturbed_sampled_ll = [2], all_perturbed_original_ll = [1],
                        perturbed_sampled_ll = 2, perturbed_original_ll = 1,
                        perturbed_sampled_ll_std = 1, perturbed_original_ll_std = 1 \<rparr>"

text \<open>An evaluation module with constant answers, hyperparameters, and the two outcomes.\<close>

definition ex_ev :: evaluation where
  "ex_ev = \<lparr> get_roc_metrics = (\<lambda>r s. Inr ([0, 1], [0, 1], 1 / 2)),
            get_precision_recall_metrics = (\<lambda>r s. Inr ([1 / 2, 1], [1, 0], 3 / 4)) \<rparr>"

definition ex_str_float :: "real \<Rightarrow> string" where
  "ex_str_float x = ''0.15''"

definition ex_hp :: hyperparameters where
  "ex_hp = \<lparr> n_perturbations = 2, span_length = 2, perturb_pct = 15 / 100, n_perturbation_rounds = 1 \<rparr>"

definition ex_outcome_d :: experiment_outcome where
  "ex_outcome_d = \<lparr> name = ''xsum_difference_2_0.15.'',
                    predictions = \<lparr> real_scores = [1], samples = [1] \<rparr>,
                    info = ex_hp,
                    raw_results = [ex_result],
                    metrics = \<lparr> roc_auc = 1 / 2, fpr = [0, 1], tpr = [0, 1] \<rparr>,
                    pr_metrics = \<lparr> pr_auc = 3 / 4, precision = [1 / 2, 1], recall = [1, 0] \<rparr>,
                    loss = 1 / 4 \<rparr>"

definition ex_outcome_z :: experiment_outcome where
  "ex_outcome_z = \<lparr> name = ''xsum_z-score_2_0.15.'',
                    predictions = \<lparr> real_scores = [1 / 2], samples = [1] \<rparr>,
                    info = ex_hp,
                    raw_results = [ex_result\<lparr>perturbed_sampled_ll_std := 1\<rparr>],
                    metrics = \<lparr> roc_auc = 1 / 2, fpr = [0, 1], tpr = [0, 1] \<rparr>,
                    pr_metrics = \<lparr> pr_auc = 3 / 4, precision = [1 / 2, 1], recall = [1, 0] \<rparr>,
                    loss = 1 / 4 \<rparr>"



text \<open>A perturber whose infill model never produces a fill for the one mask requested.\<close>

definition ex_pb :: perturber where
  "ex_pb = \<lparr> mask_policy = (\<lambda>v r passage span_len pct. (''<extra_id_0> '' @ passage, 1)),
            infill = (\<lambda>masked. []),
            substitute = (\<lambda>masked fills. masked) \<rparr>"

section \<open>Facts about the reductions and the loops\<close>

declare str_nat.simps [simp del]

lemma np_std_nonneg: "0 \<le> np_std xs"
  unfolding np_std_def np_mean_def
  by (intro real_sqrt_ge_zero divide_nonneg_nonneg sum_list_nonneg) auto

lemma score_record_fields:
  assumes "score_record qp openai_opts res = Inr r"
  shows "perturbed_original_ll r = np_mean (all_perturbed_original_ll r)"
    and "perturbed_sampled_ll r = np_mean (all_perturbed_sampled_ll r)"
    and "perturbed_original_ll_std r =
           (if length (all_perturbed_original_ll r) > 1 then np_std (all_perturbed_original_ll r) else 1)"
    and "perturbed_sampled_ll_std r =
           (if length (all_perturbed_sampled_ll r) > 1 then np_std (all_perturbed_sampled_ll r) else 1)"
  using assms by (auto simp: score_record_def split: option.splits sum.splits)

lemma query_loop_Inr:
  "query_loop qp openai_opts ps = Inr rs \<Longrightarrow>
     list_all2 (\<lambda>p r. score_record qp openai_opts p = Inr r) ps rs"
  by (induction ps arbitrary: rs) (auto split: sum.splits)

lemma query_lls_Inr:
  "query_lls qp openai_opts ps = Inr rs \<Longrightarrow>
     list_all2 (\<lambda>p r. score_record qp openai_opts p = Inr r) ps rs"
  by (auto simp: query_lls_def split: sum.splits dest: query_loop_Inr)

lemma query_lls_member:
  assumes "query_lls qp openai_opts ps = Inr rs" and "r \<in> set rs"
  shows "\<exists>p \<in> set ps. score_record qp openai_opts p = Inr r"
proof -
  from assms(2) obtain i where i: "i < length rs" "rs ! i = r"
    by (auto simp: in_set_conv_nth)
  from query_lls_Inr [OF assms(1)] i
  have "length ps = length rs" and "score_record qp openai_opts (ps ! i) = Inr r"
    by (auto simp: list_all2_conv_all_nth)
  with i show ?thesis
    by (metis nth_mem)
qed

lemma predict_loop_d:
  "predict_loop ''d'' rs preds =
     (rs, Inr \<lparr> real_scores = real_scores preds @ map (\<lambda>r. original_ll r - perturbed_original_ll r) rs,
               samples = samples preds @ map (\<lambda>r. sampled_ll r - perturbed_sampled_ll r) rs \<rparr>)"
  by (induction rs arbitrary: preds) simp_all

lemma predict_loop_other:
  "criterion \<noteq> ''d'' \<Longrightarrow> criterion \<noteq> ''z'' \<Longrightarrow> predict_loop criterion rs preds = (rs, Inr preds)"
  by (induction rs arbitrary: preds) simp_all

lemma predict_loop_z:
  "predict_loop ''z'' rs preds =
     (map (\<lambda>r. r\<lparr> perturbed_original_ll_std :=
                    (if perturbed_original_ll_std r = 0 then 1 else perturbed_original_ll_std r),
                  perturbed_sampled_ll_std :=
                    (if perturbed_sampled_ll_std r = 0 then 1 else perturbed_sampled_ll_std r) \<rparr>) rs,
      Inr \<lparr> real_scores = real_scores preds @
              map (\<lambda>r. (original_ll r - perturbed_original_ll r) /
                        (if perturbed_original_ll_std r = 0 then 1 else perturbed_original_ll_std r)) rs,
            samples = samples preds @
              map (\<lambda>r. (sampled_ll r - perturbed_sampled_ll r) /
                        (if perturbed_sampled_ll_std r = 0 then 1 else perturbed_sampled_ll_std r)) rs \<rparr>)"
  by (induction rs arbitrary: preds) (simp_all add: py_div_def Let_def)

lemma run_fst:
  "fst (run_perturbation_experiment ev sf rs c h ds) =
     fst (predict_loop c rs \<lparr>real_scores = [], samples = []\<rparr>)"
  by (simp add: run_perturbation_experiment_def split: prod.splits sum.splits)

lemma run_Inr:
  assumes "run_perturbation_experiment ev sf rs c h ds = (rs', Inr out)"
  shows "predict_loop c rs \<lparr>real_scores = [], samples = []\<rparr> = (rs', Inr (predictions out))"
    and "raw_results out = rs'"
  using assms by (auto simp: run_perturbation_experiment_def split: prod.splits sum.splits)

lemma run_returns:
  assumes "predict_loop c rs \<lparr>real_scores = [], samples = []\<rparr> = (rs', Inr preds)"
      and "get_roc_metrics ev (real_scores preds) (samples preds) = Inr t1"
      and "get_precision_recall_metrics ev (real_scores preds) (samples preds) = Inr t2"
  shows "\<exists>out. run_perturbation_experiment ev sf rs c h ds = (rs', Inr out)
               \<and> predictions out = preds \<and> raw_results out = rs'"
  using assms by (cases t1; cases t2) (simp add: run_perturbation_experiment_def)

subsection \<open>The concrete inputs evaluated\<close>

lemma ex_np: "np_mean [1, 5] = 3" "np_mean [2, 2] = 2" "np_std [1, 5] = 2" "np_std [2, 2] = 0"
  by (simp_all add: np_std_def np_mean_def)

lemma ex_sample_std: "sample_std [1, 5] \<noteq> 2"
proof
  assume "sample_std [1, 5] = 2"
  then have "sqrt 8 = 2"
    by (simp add: sample_std_def np_mean_def)
  then have "(sqrt 8)\<^sup>2 = 2\<^sup>2"
    by (simp only:)
  then show False
    by simp
qed

lemma ex_score: "score_record ex_qp (Some ()) ex_partial = Inr ex_result"
  by (simp add: score_record_def ex_qp_def ex_partial_def ex_result_def ex_np)

lemma ex_query: "query_lls ex_qp (Some ()) [ex_partial] = Inr [ex_result]"
  by (simp add: query_lls_def ex_score) (simp add: ex_qp_def)

lemma ex_bad_score: "score_record ex_qp (Some ()) ex_bad = Inl QueryError"
  by (simp add: score_record_def ex_qp_def ex_bad_def)

lemma ex_bad_query: "query_lls ex_qp (Some ()) [ex_bad, ex_partial] = Inl QueryError"
  by (simp add: query_lls_def ex_bad_score)

lemma ex_np_single: "np_mean [1] = 1" "np_mean [2] = 2"
  by (simp_all add: np_mean_def)

lemma ex_single_score: "score_record ex_qp (Some ()) ex_single = Inr ex_single_result"
  by (simp add: score_record_def ex_qp_def ex_single_def ex_single_result_def ex_np_single)

lemma ex_query2:
  "query_lls ex_qp (Some ()) [ex_partial, ex_single] = Inr [ex_result, ex_single_result]"
  by (simp add: query_lls_def ex_score ex_single_score) (simp add: ex_qp_def)

lemma ex_bad_query3: "query_lls ex_qp (Some ()) [ex_partial, ex_bad, ex_partial] = Inl QueryError"
  by (simp add: query_lls_def ex_score ex_bad_score)

lemma str_int_2: "str_int 2 = ''2''"
  by (simp add: str_int_def str_nat.simps)

lemma ex_loop_d:
  "predict_loop ''d'' [ex_result] \<lparr>real_scores = [], samples = []\<rparr> =
     ([ex_result], Inr \<lparr>real_scores = [1], samples = [1]\<rparr>)"
  by (simp add: ex_result_def)

lemma ex_loop_z:
  "predict_loop ''z'' [ex_result] \<lparr>real_scores = [], samples = []\<rparr> =
     ([ex_result\<lparr>perturbed_sampled_ll_std := 1\<rparr>], Inr \<lparr>real_scores = [1 / 2], samples = [1]\<rparr>)"
  by (simp add: ex_result_def py_div_def)

lemma ex_run_d:
  "run_perturbation_experiment ex_ev ex_str_float [ex_result] ''d'' ex_hp ''xsum'' =
     ([ex_result], Inr ex_outcome_d)"
  by (simp add: run_perturbation_experiment_def ex_loop_d ex_ev_def ex_outcome_d_def ex_hp_def
        ex_str_float_def str_int_2 del: predict_loop.simps)

lemma ex_run_z:
  "run_perturbation_experiment ex_ev ex_str_float [ex_result] ''z'' ex_hp ''xsum'' =
     ([ex_result\<lparr>perturbed_sampled_ll_std := 1\<rparr>], Inr ex_outcome_z)"
  by (simp add: run_perturbation_experiment_def ex_loop_z ex_ev_def ex_outcome_z_def ex_hp_def
        ex_str_float_def str_int_2 del: predict_loop.simps)

section \<open>The two criteria\<close>

text \<open>
  C3. On the records that \<open>query_lls\<close> returns, the difference criterion scores a passage
  by its log-likelihood minus the arithmetic mean of the log-likelihoods of its
  perturbations: \<open>original_ll - mean(all_perturbed_original_ll)\<close> in the population
  \<open>real\<close> and \<open>sampled_ll - mean(all_perturbed_sampled_ll)\<close> in the population \<open>samples\<close>,
  one score per record and in the records' order. The loop returns these populations, and
  every outcome that \<open>run_perturbation_experiment\<close> returns carries them.
\<close>

theorem difference_score:
  assumes "query_lls qp openai_opts ps = Inr rs"
  defines "P \<equiv> \<lparr> real_scores = map (\<lambda>r. original_ll r - np_mean (all_perturbed_original_ll r)) rs,
                  samples = map (\<lambda>r. sampled_ll r - np_mean (all_perturbed_sampled_ll r)) rs \<rparr>"
  shows "predict_loop ''d'' rs \<lparr>real_scores = [], samples = []\<rparr> = (rs, Inr P)
       \<and> (\<forall>ev sf h ds rs' out.
            run_perturbation_experiment ev sf rs ''d'' h ds = (rs', Inr out) \<longrightarrow> predictions out = P)"
proof -
  have "\<forall>r \<in> set rs. perturbed_original_ll r = np_mean (all_perturbed_original_ll r)
                    \<and> perturbed_sampled_ll r = np_mean (all_perturbed_sampled_ll r)"
    using query_lls_member [OF assms(1)] score_record_fields(1,2) by blast
  then have loop: "predict_loop ''d'' rs \<lparr>real_scores = [], samples = []\<rparr> = (rs, Inr P)"
    by (simp add: predict_loop_d P_def)
  then have "\<forall>ev sf h ds rs' out.
      run_perturbation_experiment ev sf rs ''d'' h ds = (rs', Inr out) \<longrightarrow> predictions out = P"
    using run_Inr(1) by fastforce
  with loop show ?thesis by blast
qed

theorem difference_score_witness:
  "query_lls ex_qp (Some ()) [ex_partial] = Inr [ex_result]
   \<and> run_perturbation_experiment ex_ev ex_str_float [ex_result] ''d'' ex_hp ''xsum'' =
       ([ex_result], Inr ex_outcome_d)
   \<and> predictions ex_outcome_d = \<lparr> real_scores = [4 - np_mean [1, 5]], samples = [3 - np_mean [2, 2]] \<rparr>
   \<and> predictions ex_outcome_d = \<lparr> real_scores = [1], samples = [1] \<rparr>"
  using difference_score [OF ex_query] ex_query ex_run_d
  by (simp add: ex_result_def ex_outcome_d_def)

text \<open>
  C2. On the records that \<open>query_lls\<close> returns, the z-score criterion scores a passage by
  its log-likelihood minus the mean of the log-likelihoods of its perturbations, divided
  by the floored standard deviation of those log-likelihoods: \<open>np.std\<close> of them when there
  are at least two and it is not zero, and 1 otherwise. The original passage is scored
  into \<open>real\<close> from its own perturbations and the sampled passage into \<open>samples\<close> from its
  own. The divisor is never zero and the loop ends without a \<open>ZeroDivisionError\<close>.
\<close>

theorem zscore_score:
  assumes "query_lls qp openai_opts ps = Inr rs"
  defines "floored \<equiv> \<lambda>xs. if 1 < length xs \<and> np_std xs \<noteq> 0 then np_std xs else 1"
  defines "P \<equiv> \<lparr> real_scores = map (\<lambda>r. (original_ll r - np_mean (all_perturbed_original_ll r))
                                        / floored (all_perturbed_original_ll r)) rs,
                  samples = map (\<lambda>r. (sampled_ll r - np_mean (all_perturbed_sampled_ll r))
                                      / floored (all_perturbed_sampled_ll r)) rs \<rparr>"
  shows "(\<exists>rs'. predict_loop ''z'' rs \<lparr>real_scores = [], samples = []\<rparr> = (rs', Inr P))
       \<and> (\<forall>xs. floored xs \<noteq> 0)
       \<and> (\<forall>ev sf h ds rs' out.
            run_perturbation_experiment ev sf rs ''z'' h ds = (rs', Inr out) \<longrightarrow> predictions out = P)"
proof -
  have fields: "\<forall>r \<in> set rs.
      perturbed_original_ll r = np_mean (all_perturbed_original_ll r)
    \<and> perturbed_sampled_ll r = np_mean (all_perturbed_sampled_ll r)
    \<and> (if perturbed_original_ll_std r = 0 then 1 else perturbed_original_ll_std r)
        = floored (all_perturbed_original_ll r)
    \<and> (if perturbed_sampled_ll_std r = 0 then 1 else perturbed_sampled_ll_std r)
        = floored (all_perturbed_sampled_ll r)"
  proof
    fix r assume "r \<in> set rs"
    then obtain p where "score_record qp openai_opts p = Inr r"
      using query_lls_member [OF assms(1)] by blast
    from score_record_fields [OF this]
    show "perturbed_original_ll r = np_mean (all_perturbed_original_ll r)
        \<and> perturbed_sampled_ll r = np_mean (all_perturbed_sampled_ll r)
        \<and> (if perturbed_original_ll_std r = 0 then 1 else perturbed_original_ll_std r)
            = floored (all_perturbed_original_ll r)
        \<and> (if perturbed_sampled_ll_std r = 0 then 1 else perturbed_sampled_ll_std r)
            = floored (all_perturbed_sampled_ll r)"
      by (simp add: floored_def)
  qed
  have loop: "snd (predict_loop ''z'' rs \<lparr>real_scores = [], samples = []\<rparr>) = Inr P"
    using fields by (simp add: predict_loop_z P_def)
  have a: "\<exists>rs'. predict_loop ''z'' rs \<lparr>real_scores = [], samples = []\<rparr> = (rs', Inr P)"
    using loop by (metis prod.collapse)
  have b: "\<forall>xs. floored xs \<noteq> 0"
    by (simp add: floored_def)
  have c: "\<forall>ev sf h ds rs' out.
      run_perturbation_experiment ev sf rs ''z'' h ds = (rs', Inr out) \<longrightarrow> predictions out = P"
    using loop run_Inr(1) by fastforce
  from a b c show ?thesis by blast
qed

theorem zscore_score_witness:
  "query_lls ex_qp (Some ()) [ex_partial] = Inr [ex_result]
   \<and> run_perturbation_experiment ex_ev ex_str_float [ex_result] ''z'' ex_hp ''xsum'' =
       ([ex_result\<lparr>perturbed_sampled_ll_std := 1\<rparr>], Inr ex_outcome_z)
   \<and> predictions ex_outcome_z =
       \<lparr> real_scores = [(4 - np_mean [1, 5]) / np_std [1, 5]], samples = [(3 - np_mean [2, 2]) / 1] \<rparr>
   \<and> predictions ex_outcome_z = \<lparr> real_scores = [1 / 2], samples = [1] \<rparr>"
  using zscore_score [OF ex_query] ex_query ex_run_z
  by (simp add: ex_result_def ex_outcome_z_def ex_np)

section \<open>The stored standard deviation\<close>

text \<open>
  The sentence C1 as it is written fails on the record of \<open>ex_partial\<close>: its two sampled
  perturbations score 2 and 2, \<open>query_lls\<close> stores their \<open>np.std\<close>, which is 0 and not 1,
  and a run with the criterion \<open>'d'\<close> leaves the record as it is.
\<close>

theorem std_floor_counterexample:
  "query_lls ex_qp (Some ()) [ex_partial] = Inr [ex_result]
   \<and> all_perturbed_sampled_ll ex_result = [2, 2]
   \<and> np_std [2, 2] = 0
   \<and> perturbed_sampled_ll_std ex_result \<noteq> 1
   \<and> fst (run_perturbation_experiment ex_ev ex_str_float [ex_result] ''d'' ex_hp ''xsum'') = [ex_result]"
  using ex_query ex_run_d by (simp add: ex_result_def ex_np)

text \<open>
  C1, amended. After \<open>query_lls\<close> the stored standard deviation of a perturbation set
  with fewer than two scores is 1. With two or more scores \<open>query_lls\<close> stores their
  \<open>np.std\<close> as it is, without a floor: 0 for the scores 2 and 2. A run of
  \<open>run_perturbation_experiment\<close> with the criterion \<open>'z'\<close> replaces a stored standard
  deviation that equals 0 by 1 and leaves every other one as it is, so that afterwards no
  stored standard deviation is 0 and that of a set with fewer than two scores is still 1.
  A run with the criterion \<open>'d'\<close> changes no record.
\<close>

theorem std_floor:
  assumes "query_lls qp openai_opts ps = Inr rs"
  shows "(\<forall>r \<in> set rs.
            (length (all_perturbed_original_ll r) < 2 \<longrightarrow> perturbed_original_ll_std r = 1)
          \<and> (length (all_perturbed_sampled_ll r) < 2 \<longrightarrow> perturbed_sampled_ll_std r = 1)
          \<and> (2 \<le> length (all_perturbed_original_ll r)
                \<longrightarrow> perturbed_original_ll_std r = np_std (all_perturbed_original_ll r))
          \<and> (2 \<le> length (all_perturbed_sampled_ll r)
                \<longrightarrow> perturbed_sampled_ll_std r = np_std (all_perturbed_sampled_ll r)))
       \<and> (\<forall>ev sf h ds.
            fst (run_perturbation_experiment ev sf rs ''z'' h ds) =
              map (\<lambda>r. r\<lparr> perturbed_original_ll_std :=
                             (if perturbed_original_ll_std r = 0 then 1 else perturbed_original_ll_std r),
                           perturbed_sampled_ll_std :=
                             (if perturbed_sampled_ll_std r = 0 then 1 else perturbed_sampled_ll_std r) \<rparr>) rs)
       \<and> (\<forall>ev sf h ds. \<forall>r \<in> set (fst (run_perturbation_experiment ev sf rs ''z'' h ds)).
            perturbed_original_ll_std r \<noteq> 0 \<and> perturbed_sampled_ll_std r \<noteq> 0
          \<and> (length (all_perturbed_original_ll r) < 2 \<longrightarrow> perturbed_original_ll_std r = 1)
          \<and> (length (all_perturbed_sampled_ll r) < 2 \<longrightarrow> perturbed_sampled_ll_std r = 1))
       \<and> (\<forall>ev sf h ds. fst (run_perturbation_experiment ev sf rs ''d'' h ds) = rs)"
proof -
  have stored: "\<forall>r \<in> set rs.
      perturbed_original_ll_std r =
        (if length (all_perturbed_original_ll r) > 1 then np_std (all_perturbed_original_ll r) else 1)
    \<and> perturbed_sampled_ll_std r =
        (if length (all_perturbed_sampled_ll r) > 1 then np_std (all_perturbed_sampled_ll r) else 1)"
    using query_lls_member [OF assms] score_record_fields(3,4) by blast
  have a: "\<forall>r \<in> set rs.
            (length (all_perturbed_original_ll r) < 2 \<longrightarrow> perturbed_original_ll_std r = 1)
          \<and> (length (all_perturbed_sampled_ll r) < 2 \<longrightarrow> perturbed_sampled_ll_std r = 1)
          \<and> (2 \<le> length (all_perturbed_original_ll r)
                \<longrightarrow> perturbed_original_ll_std r = np_std (all_perturbed_original_ll r))
          \<and> (2 \<le> length (all_perturbed_sampled_ll r)
                \<longrightarrow> perturbed_sampled_ll_std r = np_std (all_perturbed_sampled_ll r))"
    using stored by auto
  have b: "\<forall>ev sf h ds.
            fst (run_perturbation_experiment ev sf rs ''z'' h ds) =
              map (\<lambda>r. r\<lparr> perturbed_original_ll_std :=
                             (if perturbed_original_ll_std r = 0 then 1 else perturbed_original_ll_std r),
                           perturbed_sampled_ll_std :=
                             (if perturbed_sampled_ll_std r = 0 then 1 else perturbed_sampled_ll_std r) \<rparr>) rs"
    by (simp add: run_fst predict_loop_z)
  have c: "\<forall>ev sf h ds. \<forall>r \<in> set (fst (run_perturbation_experiment ev sf rs ''z'' h ds)).
            perturbed_original_ll_std r \<noteq> 0 \<and> perturbed_sampled_ll_std r \<noteq> 0
          \<and> (length (all_perturbed_original_ll r) < 2 \<longrightarrow> perturbed_original_ll_std r = 1)
          \<and> (length (all_perturbed_sampled_ll r) < 2 \<longrightarrow> perturbed_sampled_ll_std r = 1)"
    using stored by (auto simp: run_fst predict_loop_z)
  have d: "\<forall>ev sf h ds. fst (run_perturbation_experiment ev sf rs ''d'' h ds) = rs"
    by (simp add: run_fst predict_loop_d)
  from a b c d show ?thesis by blast
qed

theorem std_floor_witness:
  "query_lls ex_qp (Some ()) [ex_partial, ex_single] = Inr [ex_result, ex_single_result]
   \<and> length (all_perturbed_original_ll ex_single_result) < 2
   \<and> perturbed_original_ll_std ex_single_result = 1
   \<and> length (all_perturbed_sampled_ll ex_single_result) < 2
   \<and> perturbed_sampled_ll_std ex_single_result = 1
   \<and> 2 \<le> length (all_perturbed_original_ll ex_result)
   \<and> perturbed_original_ll_std ex_result = np_std [1, 5]
   \<and> 2 \<le> length (all_perturbed_sampled_ll ex_result)
   \<and> perturbed_sampled_ll_std ex_result = np_std [2, 2]
   \<and> perturbed_sampled_ll_std ex_result = 0
   \<and> fst (run_perturbation_experiment ex_ev ex_str_float [ex_result, ex_single_result] ''z'' ex_hp ''xsum'') =
       [ex_result\<lparr>perturbed_sampled_ll_std := 1\<rparr>, ex_single_result]
   \<and> fst (run_perturbation_experiment ex_ev ex_str_float [ex_result, ex_single_result] ''d'' ex_hp ''xsum'') =
       [ex_result, ex_single_result]"
  using std_floor [OF ex_query2] ex_query2
  by (simp add: ex_result_def ex_single_result_def ex_np)

text \<open>
  The sentence C9 as it is written fails on the same record: its original perturbations
  score 1 and 5, the stored value is 2, and the sample standard deviation of 1 and 5 is
  the square root of 8.
\<close>

theorem sample_std_counterexample:
  "query_lls ex_qp (Some ()) [ex_partial] = Inr [ex_result]
   \<and> all_perturbed_original_ll ex_result = [1, 5]
   \<and> perturbed_original_ll_std ex_result = 2
   \<and> sample_std [1, 5] \<noteq> 2"
  using ex_query ex_sample_std by (simp add: ex_result_def)

lemma np_std_sample_std:
  assumes "2 \<le> length xs"
  shows "np_std xs = sqrt ((real (length xs) - 1) / real (length xs)) * sample_std xs"
proof -
  define S where "S = sum_list (map (\<lambda>x. (x - np_mean xs)\<^sup>2) xs)"
  define n where "n = real (length xs)"
  have n: "n - 1 \<noteq> 0" "n \<noteq> 0"
    using assms by (auto simp: n_def)
  have "((n - 1) / n) * (S / (n - 1)) = S / n"
    using n by (simp add: field_simps)
  then have "sqrt (S / n) = sqrt ((n - 1) / n) * sqrt (S / (n - 1))"
    by (metis real_sqrt_mult)
  moreover have "np_std xs = sqrt (S / n)"
    by (simp add: np_std_def np_mean_def S_def n_def)
  moreover have "sample_std xs = sqrt (S / (n - 1))"
    by (simp add: sample_std_def S_def n_def)
  ultimately show ?thesis
    by (simp add: n_def)
qed

text \<open>
  C9, amended. For a perturbation-score sequence with at least two elements the stored
  standard deviation is the population standard deviation of the scores, the square root
  of the sum of squared deviations from the mean divided by the number \<open>n\<close> of scores.
  It is the sample standard deviation multiplied by the square root of \<open>(n - 1) / n\<close>.
\<close>

theorem population_std:
  assumes "query_lls qp openai_opts ps = Inr rs" and "r \<in> set rs"
  shows "(2 \<le> length (all_perturbed_original_ll r) \<longrightarrow>
            perturbed_original_ll_std r =
              sqrt (sum_list (map (\<lambda>x. (x - np_mean (all_perturbed_original_ll r))\<^sup>2)
                                  (all_perturbed_original_ll r))
                    / real (length (all_perturbed_original_ll r)))
          \<and> perturbed_original_ll_std r =
              sqrt ((real (length (all_perturbed_original_ll r)) - 1)
                    / real (length (all_perturbed_original_ll r)))
              * sample_std (all_perturbed_original_ll r))
       \<and> (2 \<le> length (all_perturbed_sampled_ll r) \<longrightarrow>
            perturbed_sampled_ll_std r =
              sqrt (sum_list (map (\<lambda>x. (x - np_mean (all_perturbed_sampled_ll r))\<^sup>2)
                                  (all_perturbed_sampled_ll r))
                    / real (length (all_perturbed_sampled_ll r)))
          \<and> perturbed_sampled_ll_std r =
              sqrt ((real (length (all_perturbed_sampled_ll r)) - 1)
                    / real (length (all_perturbed_sampled_ll r)))
              * sample_std (all_perturbed_sampled_ll r))"
proof -
  obtain p where p: "score_record qp openai_opts p = Inr r"
    using query_lls_member [OF assms] by blast
  have o: "2 \<le> length (all_perturbed_original_ll r) \<Longrightarrow>
             perturbed_original_ll_std r = np_std (all_perturbed_original_ll r)"
    using score_record_fields(3) [OF p] by simp
  have s: "2 \<le> length (all_perturbed_sampled_ll r) \<Longrightarrow>
             perturbed_sampled_ll_std r = np_std (all_perturbed_sampled_ll r)"
    using score_record_fields(4) [OF p] by simp
  show ?thesis
    using o s np_std_sample_std [symmetric]
    by (simp add: np_std_def [unfolded np_mean_def, folded np_mean_def] np_mean_def)
qed

theorem population_std_witness:
  "query_lls ex_qp (Some ()) [ex_partial] = Inr [ex_result]
   \<and> ex_result \<in> set [ex_result]
   \<and> 2 \<le> length (all_perturbed_original_ll ex_result)
   \<and> 2 \<le> length (all_perturbed_sampled_ll ex_result)
   \<and> perturbed_original_ll_std ex_result = sqrt (((1 - 3)\<^sup>2 + (5 - 3)\<^sup>2) / 2)
   \<and> perturbed_sampled_ll_std ex_result = sqrt (((2 - 2)\<^sup>2 + (2 - 2)\<^sup>2) / 2)"
  using population_std [OF ex_query, of ex_result] ex_query
  by (simp add: ex_result_def)

section \<open>A failing query\<close>

lemma score_record_Inl:
  assumes "score_record qp (Some opts) p = Inl e"
  shows "get_lls qp (perturbed_sampled p) opts = Inl e
       \<or> get_lls qp (perturbed_original p) opts = Inl e
       \<or> get_ll qp (original p) opts = Inl e
       \<or> get_ll qp (sampled p) opts = Inl e"
proof (cases "get_lls qp (perturbed_sampled p) opts")
  case Inl
  with assms show ?thesis by (simp add: score_record_def)
next
  case a: (Inr a)
  show ?thesis
  proof (cases "get_lls qp (perturbed_original p) opts")
    case Inl
    with assms a show ?thesis by (simp add: score_record_def)
  next
    case b: (Inr b)
    show ?thesis
    proof (cases "get_ll qp (original p) opts")
      case Inl
      with assms a b show ?thesis by (simp add: score_record_def)
    next
      case c: (Inr c)
      show ?thesis
      proof (cases "get_ll qp (sampled p) opts")
        case Inl
        with assms a b c show ?thesis by (simp add: score_record_def)
      next
        case (Inr d)
        with assms a b c show ?thesis by (simp add: score_record_def)
      qed
    qed
  qed
qed

lemma not_isl_Inr: "\<not> isl x \<Longrightarrow> \<exists>a. x = Inr a"
  by (cases x) simp_all

lemma score_record_first_failure:
  assumes "get_lls qp (perturbed_sampled p) opts = Inl e
         \<or> \<not> isl (get_lls qp (perturbed_sampled p) opts)
           \<and> get_lls qp (perturbed_original p) opts = Inl e
         \<or> \<not> isl (get_lls qp (perturbed_sampled p) opts)
           \<and> \<not> isl (get_lls qp (perturbed_original p) opts)
           \<and> get_ll qp (original p) opts = Inl e
         \<or> \<not> isl (get_lls qp (perturbed_sampled p) opts)
           \<and> \<not> isl (get_lls qp (perturbed_original p) opts)
           \<and> \<not> isl (get_ll qp (original p) opts)
           \<and> get_ll qp (sampled p) opts = Inl e"
  shows "score_record qp (Some opts) p = Inl e"
  using assms
proof (elim disjE conjE)
  assume "get_lls qp (perturbed_sampled p) opts = Inl e"
  then show ?thesis by (simp add: score_record_def)
next
  assume "\<not> isl (get_lls qp (perturbed_sampled p) opts)"
     and e: "get_lls qp (perturbed_original p) opts = Inl e"
  then obtain a where "get_lls qp (perturbed_sampled p) opts = Inr a"
    using not_isl_Inr by blast
  with e show ?thesis by (simp add: score_record_def)
next
  assume "\<not> isl (get_lls qp (perturbed_sampled p) opts)"
     and "\<not> isl (get_lls qp (perturbed_original p) opts)"
     and e: "get_ll qp (original p) opts = Inl e"
  then obtain a b where "get_lls qp (perturbed_sampled p) opts = Inr a"
      "get_lls qp (perturbed_original p) opts = Inr b"
    by (metis not_isl_Inr)
  with e show ?thesis by (simp add: score_record_def)
next
  assume "\<not> isl (get_lls qp (perturbed_sampled p) opts)"
     and "\<not> isl (get_lls qp (perturbed_original p) opts)"
     and "\<not> isl (get_ll qp (original p) opts)"
     and e: "get_ll qp (sampled p) opts = Inl e"
  then obtain a b c where "get_lls qp (perturbed_sampled p) opts = Inr a"
      "get_lls qp (perturbed_original p) opts = Inr b" "get_ll qp (original p) opts = Inr c"
    by (metis not_isl_Inr)
  with e show ?thesis by (simp add: score_record_def)
qed

lemma score_record_succeeds:
  assumes "\<not> isl (get_lls qp (perturbed_sampled p) opts)"
      and "\<not> isl (get_lls qp (perturbed_original p) opts)"
      and "\<not> isl (get_ll qp (original p) opts)"
      and "\<not> isl (get_ll qp (sampled p) opts)"
  shows "\<exists>r. score_record qp (Some opts) p = Inr r"
proof -
  from assms obtain a b c d where "get_lls qp (perturbed_sampled p) opts = Inr a"
      "get_lls qp (perturbed_original p) opts = Inr b" "get_ll qp (original p) opts = Inr c"
      "get_ll qp (sampled p) opts = Inr d"
    by (metis not_isl_Inr)
  then show ?thesis by (simp add: score_record_def)
qed

lemma score_record_fails:
  assumes "get_lls qp (perturbed_sampled p) opts = Inl e1
         \<or> get_lls qp (perturbed_original p) opts = Inl e2
         \<or> get_ll qp (original p) opts = Inl e3
         \<or> get_ll qp (sampled p) opts = Inl e4"
  shows "\<exists>e. score_record qp (Some opts) p = Inl e"
proof (rule ccontr)
  assume "\<not> (\<exists>e. score_record qp (Some opts) p = Inl e)"
  then obtain r where r: "score_record qp (Some opts) p = Inr r"
    by (cases "score_record qp (Some opts) p") auto
  then have "\<not> isl (get_lls qp (perturbed_sampled p) opts) \<and> \<not> isl (get_lls qp (perturbed_original p) opts)
       \<and> \<not> isl (get_ll qp (original p) opts) \<and> \<not> isl (get_ll qp (sampled p) opts)"
    by (simp add: score_record_def split: sum.splits)
  with assms show False by auto
qed

lemma query_loop_first_failure:
  assumes "\<forall>p' \<in> set pre. \<exists>r. score_record qp openai_opts p' = Inr r"
      and "score_record qp openai_opts p = Inl e"
  shows "query_loop qp openai_opts (pre @ p # post) = Inl e"
  using assms by (induction pre) auto

lemma query_loop_fails:
  assumes "p \<in> set ps" and "score_record qp openai_opts p = Inl e"
  shows "\<exists>e' p'. p' \<in> set ps \<and> score_record qp openai_opts p' = Inl e'
                \<and> query_loop qp openai_opts ps = Inl e'"
  using assms
proof (induction ps)
  case Nil
  then show ?case by simp
next
  case (Cons q qs)
  show ?case
  proof (cases "score_record qp openai_opts q")
    case (Inl e0)
    then show ?thesis by auto
  next
    case (Inr r)
    with Cons.prems have "p \<in> set qs" by auto
    from Cons.IH [OF this Cons.prems(2)] Inr show ?thesis by auto
  qed
qed

text \<open>
  The sentence C4 as it is written fails on the list of \<open>ex_bad\<close> and \<open>ex_partial\<close>: the
  querier fails on the original passage of the first record only, the second record can
  be scored, and \<open>query_lls\<close> returns the \<open>QueryError\<close> and no record.
\<close>

theorem query_failure_counterexample:
  "get_ll ex_qp (original ex_bad) () = Inl QueryError
   \<and> score_record ex_qp (Some ()) ex_partial = Inr ex_result
   \<and> query_lls ex_qp (Some ()) [ex_bad, ex_partial] = Inl QueryError"
  using ex_score ex_bad_query by (simp add: ex_qp_def ex_bad_def)

text \<open>
  C4, amended. If the querier fails on any one of the four queries of a record of the
  list, \<open>query_lls\<close> as a whole fails and returns no results, for no record, and the error
  it fails with is one that the querier itself returned on a query of a record of the
  list: it is not replaced or wrapped. It is the error of the first failing query: when
  every query of the records before \<open>p\<close> succeeds and \<open>e\<close> is the error of the first of the
  four queries of \<open>p\<close> that fails, in the order sampled perturbations, original
  perturbations, original passage, sampled passage, then \<open>query_lls\<close> fails with \<open>e\<close>.
\<close>

theorem query_failure_propagates:
  assumes "p \<in> set ps"
      and "get_lls qp (perturbed_sampled p) opts = Inl e1
         \<or> get_lls qp (perturbed_original p) opts = Inl e2
         \<or> get_ll qp (original p) opts = Inl e3
         \<or> get_ll qp (sampled p) opts = Inl e4"
  shows "(\<exists>e p'. query_lls qp (Some opts) ps = Inl e \<and> p' \<in> set ps
            \<and> (get_lls qp (perturbed_sampled p') opts = Inl e
               \<or> get_lls qp (perturbed_original p') opts = Inl e
               \<or> get_ll qp (original p') opts = Inl e
               \<or> get_ll qp (sampled p') opts = Inl e))
       \<and> (\<forall>pre post e.
             ps = pre @ p # post
           \<and> (\<forall>p' \<in> set pre.
                  \<not> isl (get_lls qp (perturbed_sampled p') opts)
                \<and> \<not> isl (get_lls qp (perturbed_original p') opts)
                \<and> \<not> isl (get_ll qp (original p') opts)
                \<and> \<not> isl (get_ll qp (sampled p') opts))
           \<and> (get_lls qp (perturbed_sampled p) opts = Inl e
              \<or> \<not> isl (get_lls qp (perturbed_sampled p) opts)
                \<and> get_lls qp (perturbed_original p) opts = Inl e
              \<or> \<not> isl (get_lls qp (perturbed_sampled p) opts)
                \<and> \<not> isl (get_lls qp (perturbed_original p) opts)
                \<and> get_ll qp (original p) opts = Inl e
              \<or> \<not> isl (get_lls qp (perturbed_sampled p) opts)
                \<and> \<not> isl (get_lls qp (perturbed_original p) opts)
                \<and> \<not> isl (get_ll qp (original p) opts)
                \<and> get_ll qp (sampled p) opts = Inl e)
           \<longrightarrow> query_lls qp (Some opts) ps = Inl e)"
proof (intro conjI allI impI)
  have "\<exists>e. score_record qp (Some opts) p = Inl e"
    using assms(2) by (rule score_record_fails)
  then obtain e0 where "score_record qp (Some opts) p = Inl e0"
    by (rule exE)
  from query_loop_fails [OF assms(1) this]
  obtain e p' where f: "p' \<in> set ps" "score_record qp (Some opts) p' = Inl e"
      "query_loop qp (Some opts) ps = Inl e"
    by (elim exE conjE)
  from f(3) have ql: "query_lls qp (Some opts) ps = Inl e"
    by (simp add: query_lls_def)
  note d = score_record_Inl [OF f(2)]
  show "\<exists>e p'. query_lls qp (Some opts) ps = Inl e \<and> p' \<in> set ps
            \<and> (get_lls qp (perturbed_sampled p') opts = Inl e
               \<or> get_lls qp (perturbed_original p') opts = Inl e
               \<or> get_ll qp (original p') opts = Inl e
               \<or> get_ll qp (sampled p') opts = Inl e)"
    by (rule exI [of _ e], rule exI [of _ p'], intro conjI) (fact ql, fact f(1), fact d)
next
  fix pre post e
  assume h: "ps = pre @ p # post
           \<and> (\<forall>p' \<in> set pre.
                  \<not> isl (get_lls qp (perturbed_sampled p') opts)
                \<and> \<not> isl (get_lls qp (perturbed_original p') opts)
                \<and> \<not> isl (get_ll qp (original p') opts)
                \<and> \<not> isl (get_ll qp (sampled p') opts))
           \<and> (get_lls qp (perturbed_sampled p) opts = Inl e
              \<or> \<not> isl (get_lls qp (perturbed_sampled p) opts)
                \<and> get_lls qp (perturbed_original p) opts = Inl e
              \<or> \<not> isl (get_lls qp (perturbed_sampled p) opts)
                \<and> \<not> isl (get_lls qp (perturbed_original p) opts)
                \<and> get_ll qp (original p) opts = Inl e
              \<or> \<not> isl (get_lls qp (perturbed_sampled p) opts)
                \<and> \<not> isl (get_lls qp (perturbed_original p) opts)
                \<and> \<not> isl (get_ll qp (original p) opts)
                \<and> get_ll qp (sampled p) opts = Inl e)"
  from h have ps: "ps = pre @ p # post"
    by (rule conjunct1)
  from h have pre: "\<forall>p' \<in> set pre.
                  \<not> isl (get_lls qp (perturbed_sampled p') opts)
                \<and> \<not> isl (get_lls qp (perturbed_original p') opts)
                \<and> \<not> isl (get_ll qp (original p') opts)
                \<and> \<not> isl (get_ll qp (sampled p') opts)"
    by (rule conjunct2 [THEN conjunct1])
  have "\<exists>r. score_record qp (Some opts) p' = Inr r" if "p' \<in> set pre" for p'
    using pre that by (intro score_record_succeeds) simp_all
  then have "\<forall>p' \<in> set pre. \<exists>r. score_record qp (Some opts) p' = Inr r"
    by (rule ballI)
  moreover have "score_record qp (Some opts) p = Inl e"
    by (rule score_record_first_failure) (rule h [THEN conjunct2, THEN conjunct2])
  ultimately have "query_loop qp (Some opts) ps = Inl e"
    unfolding ps by (rule query_loop_first_failure)
  then show "query_lls qp (Some opts) ps = Inl e"
    by (simp add: query_lls_def)
qed

theorem query_failure_propagates_witness:
  "ex_bad \<in> set [ex_partial, ex_bad, ex_partial]
   \<and> [ex_partial, ex_bad, ex_partial] = [ex_partial] @ ex_bad # [ex_partial]
   \<and> \<not> isl (get_lls ex_qp (perturbed_sampled ex_partial) ())
   \<and> \<not> isl (get_lls ex_qp (perturbed_original ex_partial) ())
   \<and> \<not> isl (get_ll ex_qp (original ex_partial) ())
   \<and> \<not> isl (get_ll ex_qp (sampled ex_partial) ())
   \<and> \<not> isl (get_lls ex_qp (perturbed_sampled ex_bad) ())
   \<and> \<not> isl (get_lls ex_qp (perturbed_original ex_bad) ())
   \<and> get_ll ex_qp (original ex_bad) () = Inl QueryError
   \<and> query_lls ex_qp (Some ()) [ex_partial, ex_bad, ex_partial] = Inl QueryError"
proof -
  have m: "ex_bad \<in> set [ex_partial, ex_bad, ex_partial]"
    by simp
  have q: "\<not> isl (get_lls ex_qp (perturbed_sampled ex_partial) ())"
      "\<not> isl (get_lls ex_qp (perturbed_original ex_partial) ())"
      "\<not> isl (get_ll ex_qp (original ex_partial) ())"
      "\<not> isl (get_ll ex_qp (sampled ex_partial) ())"
      "\<not> isl (get_lls ex_qp (perturbed_sampled ex_bad) ())"
      "\<not> isl (get_lls ex_qp (perturbed_original ex_bad) ())"
      "get_ll ex_qp (original ex_bad) () = Inl QueryError"
    by (simp_all add: ex_qp_def ex_partial_def ex_bad_def)
  have any: "get_lls ex_qp (perturbed_sampled ex_bad) () = Inl QueryError
      \<or> get_lls ex_qp (perturbed_original ex_bad) () = Inl QueryError
      \<or> get_ll ex_qp (original ex_bad) () = Inl QueryError
      \<or> get_ll ex_qp (sampled ex_bad) () = Inl QueryError"
    using q(7) by blast
  note t = query_failure_propagates [OF m any, THEN conjunct2, rule_format,
      of "[ex_partial]" "[ex_partial]" QueryError]
  have "query_lls ex_qp (Some ()) [ex_partial, ex_bad, ex_partial] = Inl QueryError"
    by (rule t) (simp add: q)
  with m q show ?thesis
    by simp
qed

section \<open>What the Detector does to the records\<close>

lemma predict_loop_not_z:
  "c \<noteq> ''z'' \<Longrightarrow> fst (predict_loop c rs preds) = rs"
  by (cases "c = ''d''") (simp_all add: predict_loop_d predict_loop_other)

lemma predict_loop_z_again:
  "predict_loop ''z'' (fst (predict_loop ''z'' rs preds)) preds = predict_loop ''z'' rs preds"
proof -
  define F :: "result_record \<Rightarrow> result_record" where
    "F = (\<lambda>r. r\<lparr> perturbed_original_ll_std :=
                    (if perturbed_original_ll_std r = 0 then 1 else perturbed_original_ll_std r),
                  perturbed_sampled_ll_std :=
                    (if perturbed_sampled_ll_std r = 0 then 1 else perturbed_sampled_ll_std r) \<rparr>)"
  define g :: "result_record \<Rightarrow> real" where
    "g = (\<lambda>r. (original_ll r - perturbed_original_ll r) /
               (if perturbed_original_ll_std r = 0 then 1 else perturbed_original_ll_std r))"
  define k :: "result_record \<Rightarrow> real" where
    "k = (\<lambda>r. (sampled_ll r - perturbed_sampled_ll r) /
               (if perturbed_sampled_ll_std r = 0 then 1 else perturbed_sampled_ll_std r))"
  have pz: "predict_loop ''z'' xs p =
              (map F xs, Inr \<lparr> real_scores = real_scores p @ map g xs,
                               samples = samples p @ map k xs \<rparr>)" for xs p
    unfolding F_def g_def k_def by (rule predict_loop_z)
  have FF: "F (F r) = F r" for r
    by (cases "perturbed_original_ll_std r = 0"; cases "perturbed_sampled_ll_std r = 0")
       (simp_all add: F_def)
  have gF: "g (F r) = g r" for r
    by (cases "perturbed_original_ll_std r = 0") (simp_all add: F_def g_def)
  have kF: "k (F r) = k r" for r
    by (cases "perturbed_sampled_ll_std r = 0") (simp_all add: F_def k_def)
  show ?thesis
    by (simp add: pz o_def FF gF kF del: predict_loop.simps)
qed

lemma predict_loop_idem:
  assumes "predict_loop c rs preds = (rs', out)"
  shows "predict_loop c rs' preds = (rs', out)"
proof (cases "c = ''z''")
  case True
  from assms have "rs' = fst (predict_loop ''z'' rs preds)"
    by (simp add: True del: predict_loop.simps)
  then show ?thesis
    using predict_loop_z_again [of rs preds] assms by (simp add: True del: predict_loop.simps)
next
  case False
  with assms predict_loop_not_z [of c rs preds] show ?thesis
    by (metis fst_conv)
qed

text \<open>
  The sentence C5 as it is written fails on the record \<open>ex_result\<close>, whose stored
  standard deviation of the sampled perturbations is 0: after a run with the criterion
  \<open>'z'\<close> the field of the caller's record is 1.
\<close>

theorem records_frame_counterexample:
  "run_perturbation_experiment ex_ev ex_str_float [ex_result] ''z'' ex_hp ''xsum'' =
     ([ex_result\<lparr>perturbed_sampled_ll_std := 1\<rparr>], Inr ex_outcome_z)
   \<and> perturbed_sampled_ll_std ex_result = 0
   \<and> perturbed_sampled_ll_std (ex_result\<lparr>perturbed_sampled_ll_std := 1\<rparr>) = 1"
  using ex_run_z by (simp add: ex_result_def)

text \<open>
  C5, amended. A run of \<open>run_perturbation_experiment\<close> with any criterion other than
  \<open>'z'\<close> leaves every field of every record unchanged. A run with the criterion \<open>'z'\<close>
  overwrites the fields \<open>perturbed_original_ll_std\<close> and \<open>perturbed_sampled_ll_std\<close> of a
  record with 1 where they are 0 and changes nothing else, so records whose two fields are
  not 0 are unchanged. The list \<open>raw_results\<close> of the outcome is the list as the run left
  it.
\<close>

theorem records_frame:
  "(c \<noteq> ''z'' \<longrightarrow> fst (run_perturbation_experiment ev sf rs c h ds) = rs)
   \<and> fst (run_perturbation_experiment ev sf rs ''z'' h ds) =
       map (\<lambda>r. r\<lparr> perturbed_original_ll_std :=
                      (if perturbed_original_ll_std r = 0 then 1 else perturbed_original_ll_std r),
                    perturbed_sampled_ll_std :=
                      (if perturbed_sampled_ll_std r = 0 then 1 else perturbed_sampled_ll_std r) \<rparr>) rs
   \<and> ((\<forall>r \<in> set rs. perturbed_original_ll_std r \<noteq> 0 \<and> perturbed_sampled_ll_std r \<noteq> 0)
        \<longrightarrow> fst (run_perturbation_experiment ev sf rs ''z'' h ds) = rs)
   \<and> (\<forall>rs' out. run_perturbation_experiment ev sf rs c h ds = (rs', Inr out) \<longrightarrow> raw_results out = rs')"
proof -
  have a: "c \<noteq> ''z'' \<longrightarrow> fst (run_perturbation_experiment ev sf rs c h ds) = rs"
    by (simp add: run_fst predict_loop_not_z)
  have b: "fst (run_perturbation_experiment ev sf rs ''z'' h ds) =
       map (\<lambda>r. r\<lparr> perturbed_original_ll_std :=
                      (if perturbed_original_ll_std r = 0 then 1 else perturbed_original_ll_std r),
                    perturbed_sampled_ll_std :=
                      (if perturbed_sampled_ll_std r = 0 then 1 else perturbed_sampled_ll_std r) \<rparr>) rs"
    by (simp add: run_fst predict_loop_z)
  have c: "(\<forall>r \<in> set rs. perturbed_original_ll_std r \<noteq> 0 \<and> perturbed_sampled_ll_std r \<noteq> 0)
        \<longrightarrow> fst (run_perturbation_experiment ev sf rs ''z'' h ds) = rs"
    unfolding b by (simp add: map_idI)
  have d: "\<forall>rs' out. run_perturbation_experiment ev sf rs c h ds = (rs', Inr out) \<longrightarrow> raw_results out = rs'"
    using run_Inr(2) by blast
  from a b c d show ?thesis by blast
qed

theorem records_frame_witness:
  "''d'' \<noteq> ''z''
   \<and> run_perturbation_experiment ex_ev ex_str_float [ex_result] ''d'' ex_hp ''xsum'' =
       ([ex_result], Inr ex_outcome_d)
   \<and> raw_results ex_outcome_d = [ex_result]
   \<and> perturbed_original_ll_std (ex_result\<lparr>perturbed_sampled_ll_std := 1\<rparr>) \<noteq> 0
   \<and> perturbed_sampled_ll_std (ex_result\<lparr>perturbed_sampled_ll_std := 1\<rparr>) \<noteq> 0
   \<and> fst (run_perturbation_experiment ex_ev ex_str_float [ex_result\<lparr>perturbed_sampled_ll_std := 1\<rparr>]
            ''z'' ex_hp ''xsum'') = [ex_result\<lparr>perturbed_sampled_ll_std := 1\<rparr>]"
  using records_frame [of "''d''" ex_ev ex_str_float "[ex_result]" ex_hp "''xsum''"]
        records_frame [of "''z''" ex_ev ex_str_float "[ex_result\<lparr>perturbed_sampled_ll_std := 1\<rparr>]" ex_hp "''xsum''"]
        ex_run_d
  by (simp add: ex_result_def ex_outcome_d_def)

text \<open>
  C8. The Detector draws no random number, and the model is a function of the evaluation
  module, the records, the criterion, the hyperparameters and the dataset name: equal
  arguments give equal results. The records are mutated in place, so a second run in the
  same process sees the list as the first run left it: that second run leaves the list as
  it is and returns the same populations and the same outcome, or the same exception.
\<close>

theorem rerun_same_outcome:
  assumes "run_perturbation_experiment ev sf rs c h ds = (rs', res)"
  shows "(\<forall>rs2 c2 h2 ds2. rs2 = rs \<and> c2 = c \<and> h2 = h \<and> ds2 = ds \<longrightarrow>
            run_perturbation_experiment ev sf rs2 c2 h2 ds2 = (rs', res))
       \<and> run_perturbation_experiment ev sf rs' c h ds = (rs', res)"
proof -
  obtain rs1 out where l: "predict_loop c rs \<lparr>real_scores = [], samples = []\<rparr> = (rs1, out)"
    by (metis prod.collapse)
  with assms have "rs1 = rs'"
    using run_fst [of ev sf rs c h ds] by simp
  with l have l1: "predict_loop c rs \<lparr>real_scores = [], samples = []\<rparr> = (rs', out)"
    by simp
  from predict_loop_idem [OF l1]
  have "run_perturbation_experiment ev sf rs' c h ds = run_perturbation_experiment ev sf rs c h ds"
    by (simp add: run_perturbation_experiment_def l1)
  with assms show ?thesis by simp
qed

theorem rerun_same_outcome_witness:
  "run_perturbation_experiment ex_ev ex_str_float [ex_result] ''z'' ex_hp ''xsum'' =
     ([ex_result\<lparr>perturbed_sampled_ll_std := 1\<rparr>], Inr ex_outcome_z)
   \<and> run_perturbation_experiment ex_ev ex_str_float [ex_result\<lparr>perturbed_sampled_ll_std := 1\<rparr>]
        ''z'' ex_hp ''xsum'' =
     ([ex_result\<lparr>perturbed_sampled_ll_std := 1\<rparr>], Inr ex_outcome_z)"
  using rerun_same_outcome [OF ex_run_z] ex_run_z by simp




section \<open>The fallback of the Perturber\<close>

lemma try_rounds_all_fail:
  "(\<forall>r'. r \<le> r' \<and> r' < r + k \<longrightarrow> \<not> round_valid pb passage span_len pct v r') \<Longrightarrow>
     try_rounds pb passage span_len pct v r k = passage"
proof (induction k arbitrary: r)
  case 0
  show ?case by simp
next
  case (Suc k)
  have "\<not> round_valid pb passage span_len pct v r"
    using Suc.prems by simp
  moreover have "try_rounds pb passage span_len pct v (Suc r) k = passage"
    using Suc.prems by (intro Suc.IH) simp
  ultimately show ?case by simp
qed

text \<open>
  C6. If every one of the \<open>n_rounds\<close> rounds of a variant fails the validity check, the
  variant is the original unmasked passage. If the rounds of every variant fail, each of
  the \<open>n_variants\<close> entries is the original passage. \<open>perturb\<close> is total: it raises
  nothing and always returns exactly \<open>n_variants\<close> entries.
\<close>

theorem fallback_to_original:
  "(\<forall>v < n_variants.
       (\<forall>r < n_rounds. \<not> round_valid pb passage span_len pct v r) \<longrightarrow>
       perturb pb passage span_len pct n_variants n_rounds ! v = passage)
   \<and> ((\<forall>v < n_variants. \<forall>r < n_rounds. \<not> round_valid pb passage span_len pct v r) \<longrightarrow>
       perturb pb passage span_len pct n_variants n_rounds = replicate n_variants passage)
   \<and> length (perturb pb passage span_len pct n_variants n_rounds) = n_variants"
proof -
  have one: "try_rounds pb passage span_len pct v 0 n_rounds = passage"
    if "\<forall>r < n_rounds. \<not> round_valid pb passage span_len pct v r" for v
    using that by (intro try_rounds_all_fail) simp
  have a: "\<forall>v < n_variants.
       (\<forall>r < n_rounds. \<not> round_valid pb passage span_len pct v r) \<longrightarrow>
       perturb pb passage span_len pct n_variants n_rounds ! v = passage"
    using one by (simp add: perturb_def)
  have b: "(\<forall>v < n_variants. \<forall>r < n_rounds. \<not> round_valid pb passage span_len pct v r) \<longrightarrow>
       perturb pb passage span_len pct n_variants n_rounds = replicate n_variants passage"
    using one by (auto simp: perturb_def list_eq_iff_nth_eq)
  have c: "length (perturb pb passage span_len pct n_variants n_rounds) = n_variants"
    by (simp add: perturb_def)
  from a b c show ?thesis by blast
qed

theorem fallback_to_original_witness:
  "\<not> round_valid ex_pb ''hello'' 2 (15 / 100) 0 0
   \<and> \<not> round_valid ex_pb ''hello'' 2 (15 / 100) 0 1
   \<and> \<not> round_valid ex_pb ''hello'' 2 (15 / 100) 1 0
   \<and> \<not> round_valid ex_pb ''hello'' 2 (15 / 100) 1 1
   \<and> perturb ex_pb ''hello'' 2 (15 / 100) 2 2 = [''hello'', ''hello'']
   \<and> perturb ex_pb ''hello'' 2 (15 / 100) 2 2 ! 1 = ''hello''"
proof -
  have f: "\<not> round_valid ex_pb ''hello'' 2 (15 / 100) v r" for v r
    by (simp add: round_valid_def ex_pb_def)
  have "replicate 2 ''hello'' = [''hello'', ''hello'']"
    by (simp add: numeral_2_eq_2)
  with f fallback_to_original [of 2 2 ex_pb "''hello''" 2 "15 / 100"] show ?thesis
    by simp
qed

end
